theory Spec2Isabelle
  imports Complex_Main
begin

section \<open>Configuration (config.py)\<close>

text \<open>
  The class \<open>Settings\<close> of config.py. The module-level object \<open>settings\<close> is read by the
  chunker and by the embedder; here it is passed to them explicitly. Every field can be
  overridden from the process environment, so the functions below take any value of the
  record, and \<open>Settings\<close> is the value the class gives when nothing is overridden.
\<close>

record settings =
  openrouter_api_key :: string
  openrouter_embedding_model :: string
  port :: int
  host :: string
  default_chunk_size :: int
  default_chunk_overlap :: int

definition Settings :: settings where
  "Settings =
     \<lparr>openrouter_api_key = '''',
      openrouter_embedding_model = ''openai/text-embedding-3-small'',
      port = 8000,
      host = ''0.0.0.0'',
      default_chunk_size = 512,
      default_chunk_overlap = 50\<rparr>"

section \<open>Python values and exceptions\<close>

text \<open>
  A decoded JSON document, as \<open>response.json()\<close> returns it: \<open>None\<close>, \<open>bool\<close>, \<open>int\<close>,
  \<open>float\<close>, \<open>str\<close>, \<open>list\<close> and \<open>dict\<close>. The service never computes with a float, so the
  type of floats is a parameter. A \<open>JObj\<close> lists the items of a dict in insertion order
  (in a dict the keys are distinct; \<open>map_of\<close> reads a key).
\<close>

datatype 'f json =
    JNull
  | JBool bool
  | JInt int
  | JFloat 'f
  | JStr string
  | JArr "'f json list"
  | JObj "(string \<times> 'f json) list"

datatype py_type = NoneType | BoolT | IntT | FloatT | StrT | ListT | DictT

fun py_type_of :: "'f json \<Rightarrow> py_type" where
  "py_type_of JNull = NoneType"
| "py_type_of (JBool b) = BoolT"
| "py_type_of (JInt i) = IntT"
| "py_type_of (JFloat x) = FloatT"
| "py_type_of (JStr s) = StrT"
| "py_type_of (JArr xs) = ListT"
| "py_type_of (JObj kvs) = DictT"

text \<open>
  The two ways the interpreter raises \<open>TypeError\<close> in the embedder: \<open>x["key"]\<close> on a value
  that is not a dict, and \<open>for item in x\<close> on a value that cannot be iterated.
\<close>

datatype type_fault = BadSubscript py_type | NotIterable py_type

text \<open>
  The exceptions of the pipeline: the plain \<open>Exception(message)\<close> that the embedder raises,
  the interpreter's \<open>KeyError(key)\<close> and \<open>TypeError\<close>, and \<open>Raised cls message\<close> for an
  exception of class \<open>cls\<close> raised inside a third-party library (the sentence splitter, the
  HTTP client, the model validation), where \<open>message\<close> is what \<open>str\<close> gives for it.
  All of them are subclasses of \<open>Exception\<close>, which is what the endpoint catches.
\<close>

datatype exn =
    Exception string
  | KeyError string
  | TypeError type_fault
  | Raised string string

text \<open>
  \<open>str(e)\<close>. The text of an interpreter \<open>TypeError\<close> depends on the interpreter's version,
  so it is taken as a parameter \<open>te\<close>. \<open>str(KeyError(k))\<close> is the \<open>repr\<close> of the key; the only
  keys used are the literals \<open>data\<close> and \<open>embedding\<close>, whose \<open>repr\<close> is the key in single
  quotes.
\<close>

fun exn_str :: "(type_fault \<Rightarrow> string) \<Rightarrow> exn \<Rightarrow> string" where
  "exn_str te (Exception m) = m"
| "exn_str te (KeyError k) = [CHR 0x27] @ k @ [CHR 0x27]"
| "exn_str te (TypeError f) = te f"
| "exn_str te (Raised cls m) = m"

text \<open>\<open>x[k]\<close> for a string key \<open>k\<close>.\<close>

fun subscript :: "'f json \<Rightarrow> string \<Rightarrow> exn + 'f json" where
  "subscript (JObj kvs) k =
     (case map_of kvs k of None \<Rightarrow> Inl (KeyError k) | Some v \<Rightarrow> Inr v)"
| "subscript x k = Inl (TypeError (BadSubscript (py_type_of x)))"

text \<open>
  \<open>for item in x\<close>: the items of a list, the keys of a dict, the characters of a string;
  anything else is not iterable.
\<close>

fun iterate :: "'f json \<Rightarrow> exn + 'f json list" where
  "iterate (JArr xs) = Inr xs"
| "iterate (JObj kvs) = Inr (map (\<lambda>kv. JStr (fst kv)) kvs)"
| "iterate (JStr s) = Inr (map (\<lambda>c. JStr [c]) s)"
| "iterate x = Inl (TypeError (NotIterable (py_type_of x)))"

text \<open>
  \<open>[f(x) for x in xs]\<close> where \<open>f\<close> may raise: the elements are visited from left to right
  and the first exception ends the comprehension (or the loop).
\<close>

fun try_map :: "('a \<Rightarrow> 'e + 'b) \<Rightarrow> 'a list \<Rightarrow> 'e + 'b list" where
  "try_map f [] = Inr []"
| "try_map f (x # xs) =
     (case f x of
        Inl e \<Rightarrow> Inl e
      | Inr y \<Rightarrow> (case try_map f xs of Inl e \<Rightarrow> Inl e | Inr ys \<Rightarrow> Inr (y # ys)))"

section \<open>The collaborators outside the repository\<close>

text \<open>
  The request that \<open>client.post\<close> sends: the URL, the headers, the two fields of the JSON
  body and the timeout in seconds.
\<close>

record http_request =
  url :: string
  headers :: "(string \<times> string) list"
  model :: string
  input :: "string list"
  timeout :: nat

text \<open>
  What the embedder reads of the response: \<open>response.status_code\<close>, \<open>response.text\<close> and
  the result of \<open>response.json()\<close>, which raises when the body is not JSON.
\<close>

record 'f http_response =
  status_code :: int
  "text" :: string
  json_result :: "exn + 'f json"

text \<open>
  What happens on the network, in order: \<open>httpx.AsyncClient()\<close> is entered, a request is
  posted, the client is left. A function that may use the network takes the trace so far and
  returns the trace extended.
\<close>

datatype net_event = ClientOpened | Posted http_request | ClientClosed

text \<open>
  The code this service calls and does not contain:
  \<^item> \<open>splitter size overlap text\<close> is \<open>SentenceSplitter(chunk_size=size,
    chunk_overlap=overlap).get_nodes_from_documents([Document(text=text)])\<close> followed by
    \<open>get_content()\<close> on each node: the texts of the nodes in order, or the exception raised;
  \<^item> \<open>http_post\<close> is the provider behind \<open>client.post\<close>: a response, or the exception of a
    transport failure;
  \<^item> \<open>validate_embedding\<close> is the validation of the field \<open>embedding: list[float]\<close> when a
    \<open>ChunkResponse\<close> is constructed;
  \<^item> \<open>type_error_str\<close> is the interpreter's text for a \<open>TypeError\<close>.
\<close>

record 'f env =
  splitter :: "int \<Rightarrow> int \<Rightarrow> string \<Rightarrow> exn + string list"
  http_post :: "http_request \<Rightarrow> exn + 'f http_response"
  validate_embedding :: "'f json \<Rightarrow> exn + 'f list"
  type_error_str :: "type_fault \<Rightarrow> string"

section \<open>The splitter (services/chunker.py)\<close>

text \<open>
  \<open>value or default\<close> on an optional integer: \<open>None\<close> and \<open>0\<close> are falsy, every other
  integer is truthy.
\<close>

definition py_or :: "int option \<Rightarrow> int \<Rightarrow> int" where
  "py_or v d = (case v of None \<Rightarrow> d | Some n \<Rightarrow> if n = 0 then d else n)"

text \<open>The dict \<open>{"content": ..., "chunk_index": ...}\<close> that the chunker builds for a node.\<close>

record chunk =
  content :: string
  chunk_index :: nat

text \<open>The loop \<open>for idx, node in enumerate(nodes): chunks.append({...})\<close>.\<close>

definition to_chunks :: "string list \<Rightarrow> chunk list" where
  "to_chunks nodes =
     map (\<lambda>(idx, node). \<lparr>chunk.content = node, chunk.chunk_index = idx\<rparr>) (enumerate 0 nodes)"

definition chunk_document ::
  "'f env \<Rightarrow> settings \<Rightarrow> string \<Rightarrow> int option \<Rightarrow> int option \<Rightarrow> exn + chunk list" where
  "chunk_document ev st content' chunk_size chunk_overlap =
     (let chunk_size = py_or chunk_size (default_chunk_size st);
          chunk_overlap = py_or chunk_overlap (default_chunk_overlap st)
      in case splitter ev chunk_size chunk_overlap content' of
           Inl e \<Rightarrow> Inl e
         | Inr nodes \<Rightarrow> Inr (to_chunks nodes))"

section \<open>The embedding client (services/embedder.py)\<close>

definition OPENROUTER_EMBEDDINGS_URL :: string where
  "OPENROUTER_EMBEDDINGS_URL = ''https://openrouter.ai/api/v1/embeddings''"

definition embeddings_request :: "settings \<Rightarrow> string list \<Rightarrow> http_request" where
  "embeddings_request st texts =
     \<lparr>url = OPENROUTER_EMBEDDINGS_URL,
      headers = [(''Authorization'', ''Bearer '' @ openrouter_api_key st),
                 (''Content-Type'', ''application/json'')],
      model = openrouter_embedding_model st,
      input = texts,
      timeout = 60\<rparr>"

text \<open>\<open>[item["embedding"] for item in data["data"]]\<close>\<close>

definition embeddings_of :: "'f json \<Rightarrow> exn + 'f json list" where
  "embeddings_of data =
     (case subscript data ''data'' of
        Inl e \<Rightarrow> Inl e
      | Inr d \<Rightarrow>
          (case iterate d of
             Inl e \<Rightarrow> Inl e
           | Inr items \<Rightarrow> try_map (\<lambda>item. subscript item ''embedding'') items))"

text \<open>
  The \<open>async with\<close> block leaves the client on every path, also when the post or the
  decoding raises.
\<close>

definition generate_embeddings ::
  "'f env \<Rightarrow> settings \<Rightarrow> string list \<Rightarrow> net_event list
     \<Rightarrow> (exn + 'f json list) \<times> net_event list" where
  "generate_embeddings ev st texts tr =
     (if texts = [] then (Inr [], tr)
      else
        let req = embeddings_request st texts;
            tr' = tr @ [ClientOpened, Posted req, ClientClosed]
        in case http_post ev req of
             Inl e \<Rightarrow> (Inl e, tr')
           | Inr response \<Rightarrow>
               if status_code response \<noteq> 200
               then (Inl (Exception (''OpenRouter embedding failed: '' @ text response)), tr')
               else (case json_result response of
                       Inl e \<Rightarrow> (Inl e, tr')
                     | Inr data \<Rightarrow> (embeddings_of data, tr')))"

section \<open>The endpoint POST /chunk (api/routes/chunk.py)\<close>

type_synonym 'f metadata = "(string \<times> 'f json) list option"

record 'f ChunkRequest =
  content :: string
  metadata :: "'f metadata"
  chunk_size :: "int option"
  chunk_overlap :: "int option"

record 'f ChunkResponse =
  content :: string
  embedding :: "'f list"
  chunk_index :: nat
  metadata :: "'f metadata"

record 'f ChunkResult =
  chunks :: "'f ChunkResponse list"
  total_chunks :: nat

datatype HTTPException = HTTPException int string

text \<open>
  The construction \<open>ChunkResponse(content=..., embedding=..., chunk_index=...,
  metadata=request.metadata)\<close> for one pair of the \<open>zip\<close>.
\<close>

definition make_response ::
  "'f env \<Rightarrow> 'f metadata \<Rightarrow> chunk \<times> 'f json \<Rightarrow> exn + 'f ChunkResponse" where
  "make_response ev md p =
     (case validate_embedding ev (snd p) of
        Inl e \<Rightarrow> Inl e
      | Inr v \<Rightarrow>
          Inr \<lparr>ChunkResponse.content = chunk.content (fst p),
               ChunkResponse.embedding = v,
               ChunkResponse.chunk_index = chunk.chunk_index (fst p),
               ChunkResponse.metadata = md\<rparr>)"

text \<open>\<open>except Exception as e: raise HTTPException(status_code=500, detail=str(e))\<close>\<close>

definition boundary :: "'f env \<Rightarrow> exn \<Rightarrow> HTTPException" where
  "boundary ev e = HTTPException 500 (exn_str (type_error_str ev) e)"

definition create_chunks ::
  "'f env \<Rightarrow> settings \<Rightarrow> 'f ChunkRequest \<Rightarrow> net_event list
     \<Rightarrow> (HTTPException + 'f ChunkResult) \<times> net_event list" where
  "create_chunks ev st request tr =
     (case chunk_document ev st (ChunkRequest.content request)
             (ChunkRequest.chunk_size request) (ChunkRequest.chunk_overlap request) of
        Inl e \<Rightarrow> (Inl (boundary ev e), tr)
      | Inr chunk_list \<Rightarrow>
          if chunk_list = [] then (Inr \<lparr>chunks = [], total_chunks = 0\<rparr>, tr)
          else
            (case generate_embeddings ev st (map chunk.content chunk_list) tr of
               (Inl e, tr') \<Rightarrow> (Inl (boundary ev e), tr')
             | (Inr embeddings, tr') \<Rightarrow>
                 (case try_map (make_response ev (ChunkRequest.metadata request))
                         (zip chunk_list embeddings) of
                    Inl e \<Rightarrow> (Inl (boundary ev e), tr')
                  | Inr result_chunks \<Rightarrow>
                      (Inr \<lparr>chunks = result_chunks, total_chunks = length result_chunks\<rparr>,
                       tr'))))"

section \<open>Stand-ins for the collaborators\<close>

text \<open>
  Concrete collaborators on which the theorems below are evaluated; the theorems themselves
  hold for every collaborator.

  \<open>str(n)\<close> for an integer, as an f-string prints it.
\<close>

fun str_nat :: "nat \<Rightarrow> string" where
  "str_nat n =
     (if n < 10 then [''0123456789'' ! n]
      else str_nat (n div 10) @ [''0123456789'' ! (n mod 10)])"

declare str_nat.simps [simp del]

definition str_int :: "int \<Rightarrow> string" where
  "str_int i = (if i < 0 then CHR ''-'' # str_nat (nat (- i)) else str_nat (nat i))"

text \<open>
  The stand-in splitter does what the library's \<open>SentenceSplitter\<close> does on the inputs used
  below, which are the empty text and one short sentence:
  \<^item> the constructor raises \<open>ValueError\<close> with the message
    \<open>Got a larger chunk overlap (o) than chunk size (s), should be smaller.\<close> when the overlap
    \<open>o\<close> is larger than the chunk size \<open>s\<close>;
  \<^item> a sentence that fits into one chunk comes back as the only node;
  \<^item> for the empty text the splitting returns the list that holds the text itself
    (\<open>if text == "": return [text]\<close>), and one node is built for every split, so the empty
    text comes back as one node with empty content.
\<close>

definition stub_splitter :: "int \<Rightarrow> int \<Rightarrow> string \<Rightarrow> exn + string list" where
  "stub_splitter sz ov t =
     (if ov > sz
      then Inl (Raised ''ValueError''
                 (''Got a larger chunk overlap ('' @ str_int ov @ '') than chunk size (''
                    @ str_int sz @ ''), should be smaller.''))
      else Inr [t])"

text \<open>A validation of \<open>list[float]\<close> that accepts a list of numbers and nothing else.\<close>

definition as_float :: "rat json \<Rightarrow> exn + rat" where
  "as_float x =
     (case x of
        JFloat f \<Rightarrow> Inr f
      | JInt i \<Rightarrow> Inr (of_int i)
      | _ \<Rightarrow> Inl (Raised ''ValidationError'' ''Input should be a valid number''))"

definition stub_validate :: "rat json \<Rightarrow> exn + rat list" where
  "stub_validate x =
     (case x of
        JArr xs \<Rightarrow> try_map as_float xs
      | _ \<Rightarrow> Inl (Raised ''ValidationError'' ''Input should be a valid list''))"

text \<open>
  Two providers. \<open>answering n\<close> answers with status 200 and one vector (here the length of
  the text) for each of the first \<open>n\<close> texts of the batch, and \<open>refusing code body\<close> answers
  with the given status and body.
\<close>

definition vector_for :: "string \<Rightarrow> rat json" where
  "vector_for t = JObj [(''embedding'', JArr [JInt (int (length t))])]"

definition answering :: "nat \<Rightarrow> http_request \<Rightarrow> exn + rat http_response" where
  "answering n req =
     Inr \<lparr>status_code = 200, text = ''ok'',
          json_result = Inr (JObj [(''data'', JArr (map vector_for (take n (input req))))])\<rparr>"

definition refusing :: "int \<Rightarrow> string \<Rightarrow> http_request \<Rightarrow> exn + rat http_response" where
  "refusing code body req =
     Inr \<lparr>status_code = code, text = body,
          json_result = Inl (Raised ''JSONDecodeError'' ''Expecting value'')\<rparr>"

definition stub_env :: "(http_request \<Rightarrow> exn + rat http_response) \<Rightarrow> rat env" where
  "stub_env provider =
     \<lparr>splitter = stub_splitter,
      http_post = provider,
      validate_embedding = stub_validate,
      type_error_str = (\<lambda>f. ''TypeError'')\<rparr>"

text \<open>The request body \<open>{"content": "Hello world."}\<close> with the given size and overlap.\<close>

definition hello :: "int option \<Rightarrow> int option \<Rightarrow> rat ChunkRequest" where
  "hello cs co =
     \<lparr>ChunkRequest.content = ''Hello world.'', ChunkRequest.metadata = None,
      ChunkRequest.chunk_size = cs, ChunkRequest.chunk_overlap = co\<rparr>"

text \<open>The same request carrying the metadata \<open>{"source": "faq"}\<close>.\<close>

definition tagged :: "rat ChunkRequest" where
  "tagged = (hello None None)\<lparr>ChunkRequest.metadata := Some [(''source'', JStr ''faq'')]\<rparr>"


section \<open>Auxiliary facts\<close>

lemma try_map_Inr_D: "try_map f xs = Inr ys \<Longrightarrow> list_all2 (\<lambda>x y. f x = Inr y) xs ys"
  by (induction xs arbitrary: ys) (auto split: sum.splits)






lemma chunk_document_eq:
  "chunk_document ev st c cs co =
     map_sum id to_chunks
       (splitter ev (py_or cs (default_chunk_size st)) (py_or co (default_chunk_overlap st)) c)"
  by (simp add: chunk_document_def Let_def split: sum.splits)


lemma generate_embeddings_refused:
  "texts \<noteq> [] \<Longrightarrow> http_post ev (embeddings_request st texts) = Inr resp \<Longrightarrow>
   status_code resp \<noteq> 200 \<Longrightarrow>
     generate_embeddings ev st texts tr
       = (Inl (Exception (''OpenRouter embedding failed: '' @ text resp)),
          tr @ [ClientOpened, Posted (embeddings_request st texts), ClientClosed])"
  by (simp add: generate_embeddings_def Let_def)




lemma create_chunks_split_error:
  "chunk_document ev st (ChunkRequest.content req) (ChunkRequest.chunk_size req)
     (ChunkRequest.chunk_overlap req) = Inl e \<Longrightarrow>
   create_chunks ev st req tr = (Inl (HTTPException 500 (exn_str (type_error_str ev) e)), tr)"
  by (simp add: create_chunks_def boundary_def)


lemma create_chunks_embed_error:
  "chunk_document ev st (ChunkRequest.content req) (ChunkRequest.chunk_size req)
     (ChunkRequest.chunk_overlap req) = Inr chs \<Longrightarrow>
   generate_embeddings ev st (map chunk.content chs) tr = (Inl e, tr') \<Longrightarrow>
   create_chunks ev st req tr = (Inl (HTTPException 500 (exn_str (type_error_str ev) e)), tr')"
  by (cases "chs = []") (simp_all add: create_chunks_def boundary_def generate_embeddings_def)




lemma create_chunks_success_D:
  assumes "create_chunks ev st req tr = (Inr res, tr')"
  shows "\<exists>chs. chunk_document ev st (ChunkRequest.content req) (ChunkRequest.chunk_size req)
            (ChunkRequest.chunk_overlap req) = Inr chs
          \<and> (chs = [] \<and> res = \<lparr>chunks = [], total_chunks = 0\<rparr>
               \<or> chs \<noteq> [] \<and> (\<exists>es. generate_embeddings ev st (map chunk.content chs) tr = (Inr es, tr')
                    \<and> list_all2 (\<lambda>p r. make_response ev (ChunkRequest.metadata req) p = Inr r)
                         (zip chs es) (chunks res)
                    \<and> total_chunks res = length (chunks res)))"
  using assms
  by (auto simp: create_chunks_def split: sum.splits if_splits prod.splits dest!: try_map_Inr_D)



section \<open>The embedding client on the empty batch\<close>

text \<open>
  Claim C7. For the empty list of texts \<open>generate_embeddings\<close> returns the empty list and
  leaves the network trace as it was: no client is opened and no request is posted.
\<close>

theorem generate_embeddings_empty_no_call:
  "generate_embeddings ev st [] tr = (Inr [], tr)"
  by (simp add: generate_embeddings_def)

section \<open>Defaulting of chunk size and overlap\<close>

text \<open>
  Claim C10. For every content, size and overlap, \<open>chunk_document\<close> runs the splitter with
  the two parameters defaulted each on its own: an omitted value and an explicit \<open>0\<close> are
  replaced by the configured default, every other integer (negative ones included) reaches
  the splitter unchanged. When the configured defaults are 512 and 50, these are the values
  substituted, and the overlap the splitter is run with is never 0, whatever the caller
  supplies.
\<close>

theorem defaulting_of_size_and_overlap:
  "chunk_document ev st c cs co =
     map_sum id to_chunks
       (splitter ev
          (case cs of None \<Rightarrow> default_chunk_size st
                    | Some n \<Rightarrow> if n = 0 then default_chunk_size st else n)
          (case co of None \<Rightarrow> default_chunk_overlap st
                    | Some m \<Rightarrow> if m = 0 then default_chunk_overlap st else m)
          c)
   \<and> (default_chunk_size st = 512 \<longrightarrow> default_chunk_overlap st = 50 \<longrightarrow>
        (\<exists>sz ov. chunk_document ev st c cs co = map_sum id to_chunks (splitter ev sz ov c)
           \<and> sz = (case cs of None \<Rightarrow> 512 | Some n \<Rightarrow> if n = 0 then 512 else n)
           \<and> ov = (case co of None \<Rightarrow> 50 | Some m \<Rightarrow> if m = 0 then 50 else m)
           \<and> ov \<noteq> 0))"
  by (simp add: chunk_document_eq py_or_def split: option.splits)

theorem defaulting_of_size_and_overlap_witness:
  "default_chunk_size Settings = 512 \<and> default_chunk_overlap Settings = 50
   \<and> chunk_document (stub_env (answering 1)) Settings ''Hello world.'' (Some 30) (Some 0)
       = Inl (Raised ''ValueError''
               ''Got a larger chunk overlap (50) than chunk size (30), should be smaller.'')
   \<and> chunk_document (stub_env (answering 1)) Settings ''Hello world.'' (Some 0) (Some 600)
       = Inl (Raised ''ValueError''
               ''Got a larger chunk overlap (600) than chunk size (512), should be smaller.'')
   \<and> chunk_document (stub_env (answering 1)) Settings ''Hello world.'' None None
       = Inr [\<lparr>chunk.content = ''Hello world.'', chunk.chunk_index = 0\<rparr>]"
proof -
  let ?ev = "stub_env (answering 1)"
  have d: "default_chunk_size Settings = 512" "default_chunk_overlap Settings = 50"
    by (simp_all add: Settings_def)
  have "chunk_document ?ev Settings ''Hello world.'' (Some 30) (Some 0)
          = map_sum id to_chunks (splitter ?ev 30 50 ''Hello world.'')"
    using defaulting_of_size_and_overlap
            [of ?ev Settings "''Hello world.''" "Some 30" "Some 0", THEN conjunct1] d
    by simp
  moreover have "chunk_document ?ev Settings ''Hello world.'' (Some 0) (Some 600)
          = map_sum id to_chunks (splitter ?ev 512 600 ''Hello world.'')"
    using defaulting_of_size_and_overlap
            [of ?ev Settings "''Hello world.''" "Some 0" "Some 600", THEN conjunct1] d
    by simp
  moreover have "chunk_document ?ev Settings ''Hello world.'' None None
          = map_sum id to_chunks (splitter ?ev 512 50 ''Hello world.'')"
    using defaulting_of_size_and_overlap
            [of ?ev Settings "''Hello world.''" None None, THEN conjunct1] d
    by simp
  ultimately show ?thesis
    using d
    by (simp add: stub_env_def stub_splitter_def to_chunks_def enumerate_eq_zip str_int_def
          str_nat.simps)
qed

section \<open>The chunks of the splitter\<close>




section \<open>The pipeline without chunks\<close>




section \<open>Failures at the boundary of the endpoint\<close>

text \<open>
  Claim C4. When the Splitter raises an exception, and when the Embedding Client raises an
  exception, the endpoint answers with HTTP 500 whose detail is \<open>str\<close> of that exception, and
  with nothing else: the result is the exception alone, no list of results comes with it.
\<close>

theorem failures_become_http_500:
  "(\<forall>e. chunk_document ev st (ChunkRequest.content req) (ChunkRequest.chunk_size req)
           (ChunkRequest.chunk_overlap req) = Inl e \<longrightarrow>
        create_chunks ev st req tr
          = (Inl (HTTPException 500 (exn_str (type_error_str ev) e)), tr))
   \<and> (\<forall>chs e tr'. chunk_document ev st (ChunkRequest.content req) (ChunkRequest.chunk_size req)
           (ChunkRequest.chunk_overlap req) = Inr chs
         \<and> generate_embeddings ev st (map chunk.content chs) tr = (Inl e, tr') \<longrightarrow>
        create_chunks ev st req tr
          = (Inl (HTTPException 500 (exn_str (type_error_str ev) e)), tr'))"
  by (simp add: create_chunks_split_error create_chunks_embed_error)

theorem failures_become_http_500_witness:
  "chunk_document (stub_env (answering 1)) Settings
      (ChunkRequest.content (hello (Some 100) (Some 200)))
      (ChunkRequest.chunk_size (hello (Some 100) (Some 200)))
      (ChunkRequest.chunk_overlap (hello (Some 100) (Some 200)))
     = Inl (Raised ''ValueError''
             ''Got a larger chunk overlap (200) than chunk size (100), should be smaller.'')
   \<and> create_chunks (stub_env (answering 1)) Settings (hello (Some 100) (Some 200)) []
     = (Inl (HTTPException 500
              ''Got a larger chunk overlap (200) than chunk size (100), should be smaller.''), [])
   \<and> chunk_document (stub_env (refusing 503 ''Service Unavailable'')) Settings
      (ChunkRequest.content (hello None None)) (ChunkRequest.chunk_size (hello None None))
      (ChunkRequest.chunk_overlap (hello None None))
     = Inr [\<lparr>chunk.content = ''Hello world.'', chunk.chunk_index = 0\<rparr>]
   \<and> generate_embeddings (stub_env (refusing 503 ''Service Unavailable'')) Settings
        (map chunk.content [\<lparr>chunk.content = ''Hello world.'', chunk.chunk_index = 0\<rparr>]) []
     = (Inl (Exception ''OpenRouter embedding failed: Service Unavailable''),
        [ClientOpened, Posted (embeddings_request Settings [''Hello world.'']), ClientClosed])
   \<and> create_chunks (stub_env (refusing 503 ''Service Unavailable'')) Settings (hello None None) []
     = (Inl (HTTPException 500 ''OpenRouter embedding failed: Service Unavailable''),
        [ClientOpened, Posted (embeddings_request Settings [''Hello world.'']), ClientClosed])"
proof -
  let ?ev = "stub_env (answering 1)" and ?req = "hello (Some 100) (Some 200)"
  let ?ev' = "stub_env (refusing 503 ''Service Unavailable'')" and ?req' = "hello None None"
  let ?chs = "[\<lparr>chunk.content = ''Hello world.'', chunk.chunk_index = 0\<rparr>]"
  let ?tr' = "[ClientOpened, Posted (embeddings_request Settings [''Hello world.'']), ClientClosed]"
  have h: "chunk_document ?ev Settings (ChunkRequest.content ?req) (ChunkRequest.chunk_size ?req)
             (ChunkRequest.chunk_overlap ?req)
           = Inl (Raised ''ValueError''
                   ''Got a larger chunk overlap (200) than chunk size (100), should be smaller.'')"
    by (simp add: chunk_document_def py_or_def stub_env_def stub_splitter_def hello_def
          str_int_def str_nat.simps)
  have c: "chunk_document ?ev' Settings (ChunkRequest.content ?req') (ChunkRequest.chunk_size ?req')
             (ChunkRequest.chunk_overlap ?req') = Inr ?chs"
    by (simp add: chunk_document_def py_or_def Settings_def stub_env_def stub_splitter_def
          hello_def to_chunks_def enumerate_eq_zip)
  have g: "generate_embeddings ?ev' Settings (map chunk.content ?chs) []
             = (Inl (Exception ''OpenRouter embedding failed: Service Unavailable''), ?tr')"
    by (simp add: generate_embeddings_def stub_env_def refusing_def)
  have a: "create_chunks ?ev Settings ?req []
             = (Inl (HTTPException 500 (exn_str (type_error_str ?ev) (Raised ''ValueError''
                   ''Got a larger chunk overlap (200) than chunk size (100), should be smaller.''))),
                [])"
    using failures_become_http_500 [of ?ev Settings ?req "[]", THEN conjunct1] h by blast
  have b: "create_chunks ?ev' Settings ?req' []
             = (Inl (HTTPException 500 (exn_str (type_error_str ?ev')
                   (Exception ''OpenRouter embedding failed: Service Unavailable''))), ?tr')"
    using failures_become_http_500 [of ?ev' Settings ?req' "[]", THEN conjunct2] c g by blast
  from h c g a b show ?thesis by simp
qed

section \<open>A refusal of the provider\<close>

text \<open>
  Claim C5 as stated fails. The exception that the Embedding Client raises on a non-success
  status is a plain \<open>Exception\<close> whose only content is a message built from the body of the
  response; the status is not in it. A refusal with status 401 and one with status 403 and
  the same body give the same exception.
\<close>

theorem refusal_status_not_carried_counterexample:
  "generate_embeddings (stub_env (refusing 401 ''No auth credentials found'')) Settings
      [''Hello world.''] []
     = (Inl (Exception ''OpenRouter embedding failed: No auth credentials found''),
        [ClientOpened, Posted (embeddings_request Settings [''Hello world.'']), ClientClosed])
   \<and> generate_embeddings (stub_env (refusing 403 ''No auth credentials found'')) Settings
      [''Hello world.''] []
     = generate_embeddings (stub_env (refusing 401 ''No auth credentials found'')) Settings
      [''Hello world.''] []"
  by (simp add: generate_embeddings_def stub_env_def refusing_def)

text \<open>
  Claim C5, amended. When the provider answers with a status other than 200, the call fails
  with a plain \<open>Exception\<close> whose message is \<open>OpenRouter embedding failed: \<close> followed by the
  text of the response (the status itself is not carried); exactly one request has been
  posted, so nothing is retried; the exception propagates to the endpoint, which answers
  with HTTP 500 and that message as detail.
\<close>

theorem refusal_propagates_as_http_500:
  assumes "texts \<noteq> []"
    and "http_post ev (embeddings_request st texts) = Inr resp"
    and "status_code resp \<noteq> 200"
  shows "generate_embeddings ev st texts tr
           = (Inl (Exception (''OpenRouter embedding failed: '' @ text resp)),
              tr @ [ClientOpened, Posted (embeddings_request st texts), ClientClosed])
         \<and> (\<forall>req chs. chunk_document ev st (ChunkRequest.content req) (ChunkRequest.chunk_size req)
                (ChunkRequest.chunk_overlap req) = Inr chs \<and> map chunk.content chs = texts \<longrightarrow>
              create_chunks ev st req tr
                = (Inl (HTTPException 500 (''OpenRouter embedding failed: '' @ text resp)),
                   tr @ [ClientOpened, Posted (embeddings_request st texts), ClientClosed]))"
proof -
  have g: "generate_embeddings ev st texts tr
           = (Inl (Exception (''OpenRouter embedding failed: '' @ text resp)),
              tr @ [ClientOpened, Posted (embeddings_request st texts), ClientClosed])"
    using assms by (rule generate_embeddings_refused)
  moreover have "create_chunks ev st req tr
                = (Inl (HTTPException 500 (''OpenRouter embedding failed: '' @ text resp)),
                   tr @ [ClientOpened, Posted (embeddings_request st texts), ClientClosed])"
    if "chunk_document ev st (ChunkRequest.content req) (ChunkRequest.chunk_size req)
                (ChunkRequest.chunk_overlap req) = Inr chs" and "map chunk.content chs = texts"
    for req :: "'a ChunkRequest" and chs
    using create_chunks_embed_error [OF that(1), of tr] g that(2) by simp
  ultimately show ?thesis by blast
qed

theorem refusal_propagates_as_http_500_witness:
  "[''Hello world.''] \<noteq> []
   \<and> http_post (stub_env (refusing 401 ''No auth credentials found''))
        (embeddings_request Settings [''Hello world.''])
       = Inr \<lparr>status_code = 401, text = ''No auth credentials found'',
              json_result = Inl (Raised ''JSONDecodeError'' ''Expecting value'')\<rparr>
   \<and> (401::int) \<noteq> 200
   \<and> create_chunks (stub_env (refusing 401 ''No auth credentials found'')) Settings
        (hello None None) []
       = (Inl (HTTPException 500 ''OpenRouter embedding failed: No auth credentials found''),
          [ClientOpened, Posted (embeddings_request Settings [''Hello world.'']), ClientClosed])"
proof -
  let ?ev = "stub_env (refusing 401 ''No auth credentials found'')"
  let ?resp = "\<lparr>status_code = 401, text = ''No auth credentials found'',
              json_result = Inl (Raised ''JSONDecodeError'' ''Expecting value'') :: exn + rat json\<rparr>"
  have h1: "[''Hello world.''] \<noteq> []" by simp
  have h2: "http_post ?ev (embeddings_request Settings [''Hello world.'']) = Inr ?resp"
    by (simp add: stub_env_def refusing_def)
  have h3: "status_code ?resp \<noteq> 200" by simp
  have c: "chunk_document ?ev Settings (ChunkRequest.content (hello None None))
             (ChunkRequest.chunk_size (hello None None))
             (ChunkRequest.chunk_overlap (hello None None))
           = Inr [\<lparr>chunk.content = ''Hello world.'', chunk.chunk_index = 0\<rparr>]"
    by (simp add: chunk_document_def py_or_def Settings_def stub_env_def stub_splitter_def
          hello_def to_chunks_def enumerate_eq_zip)
  from refusal_propagates_as_http_500 [OF h1 h2 h3, of "[]"] c h2 show ?thesis by simp
qed

section \<open>The metadata of the request\<close>

text \<open>
  Claim C6. In every successful response each chunk carries the metadata of the request,
  unchanged, whether it is an object or absent; \<open>total_chunks\<close> is the number of chunks
  returned, which is the number of pairs of a chunk and a vector.
\<close>

theorem metadata_passed_through:
  assumes "create_chunks ev st req tr = (Inr res, tr')"
  shows "(\<forall>c \<in> set (chunks res). ChunkResponse.metadata c = ChunkRequest.metadata req)
         \<and> total_chunks res = length (chunks res)
         \<and> (\<forall>chs es. chunk_document ev st (ChunkRequest.content req) (ChunkRequest.chunk_size req)
                (ChunkRequest.chunk_overlap req) = Inr chs
              \<and> fst (generate_embeddings ev st (map chunk.content chs) tr) = Inr es \<longrightarrow>
              length (chunks res) = min (length chs) (length es))"
proof -
  from create_chunks_success_D [OF assms] obtain chs where
    c: "chunk_document ev st (ChunkRequest.content req) (ChunkRequest.chunk_size req)
            (ChunkRequest.chunk_overlap req) = Inr chs"
    and d: "chs = [] \<and> res = \<lparr>chunks = [], total_chunks = 0\<rparr>
             \<or> chs \<noteq> [] \<and> (\<exists>es. generate_embeddings ev st (map chunk.content chs) tr = (Inr es, tr')
                  \<and> list_all2 (\<lambda>p r. make_response ev (ChunkRequest.metadata req) p = Inr r)
                       (zip chs es) (chunks res)
                  \<and> total_chunks res = length (chunks res))"
    by blast
  from d show ?thesis
  proof
    assume "chs = [] \<and> res = \<lparr>chunks = [], total_chunks = 0\<rparr>"
    with c show ?thesis by simp
  next
    assume "chs \<noteq> [] \<and> (\<exists>es. generate_embeddings ev st (map chunk.content chs) tr = (Inr es, tr')
                  \<and> list_all2 (\<lambda>p r. make_response ev (ChunkRequest.metadata req) p = Inr r)
                       (zip chs es) (chunks res)
                  \<and> total_chunks res = length (chunks res))"
    then obtain es where g: "generate_embeddings ev st (map chunk.content chs) tr = (Inr es, tr')"
      and l: "list_all2 (\<lambda>p r. make_response ev (ChunkRequest.metadata req) p = Inr r)
                (zip chs es) (chunks res)"
      and t: "total_chunks res = length (chunks res)"
      by blast
    have m: "ChunkResponse.metadata r = ChunkRequest.metadata req" if "r \<in> set (chunks res)" for r
    proof -
      from that obtain i where "i < length (chunks res)" and "chunks res ! i = r"
        by (auto simp: in_set_conv_nth)
      with l have "make_response ev (ChunkRequest.metadata req) (zip chs es ! i) = Inr r"
        by (auto dest: list_all2_nthD2)
      then show ?thesis by (auto simp: make_response_def split: sum.splits)
    qed
    from l have "length (chunks res) = min (length chs) (length es)"
      by (auto dest: list_all2_lengthD)
    with m t c g show ?thesis by auto
  qed
qed

theorem metadata_passed_through_witness:
  "create_chunks (stub_env (answering 1)) Settings tagged []
     = (Inr \<lparr>chunks = [\<lparr>ChunkResponse.content = ''Hello world.'', ChunkResponse.embedding = [12],
                         ChunkResponse.chunk_index = 0,
                         ChunkResponse.metadata = Some [(''source'', JStr ''faq'')]\<rparr>],
             total_chunks = 1\<rparr>,
        [ClientOpened, Posted (embeddings_request Settings [''Hello world.'']), ClientClosed])
   \<and> ChunkRequest.metadata tagged = Some [(''source'', JStr ''faq'')]"
proof -
  let ?res = "\<lparr>chunks = [\<lparr>ChunkResponse.content = ''Hello world.'', ChunkResponse.embedding = [12::rat],
                         ChunkResponse.chunk_index = 0,
                         ChunkResponse.metadata = Some [(''source'', JStr ''faq'')]\<rparr>],
             total_chunks = 1\<rparr>"
  have h: "create_chunks (stub_env (answering 1)) Settings tagged []
     = (Inr ?res,
        [ClientOpened, Posted (embeddings_request Settings [''Hello world.'']), ClientClosed])"
    by (simp add: create_chunks_def chunk_document_def py_or_def Settings_def stub_env_def
        stub_splitter_def to_chunks_def enumerate_eq_zip generate_embeddings_def
        embeddings_request_def answering_def embeddings_of_def vector_for_def hello_def tagged_def
        make_response_def stub_validate_def as_float_def OPENROUTER_EMBEDDINGS_URL_def)
  from metadata_passed_through [OF h] h show ?thesis by (simp add: tagged_def)
qed

section \<open>What the splitter depends on\<close>



section \<open>Malformed size and overlap\<close>




section \<open>Vectors and chunks\<close>




end
